theory Spec2Isabelle
  imports Complex_Main
begin

unbundle bit_operations_syntax

section \<open>The SB\_Servo wrapper of the SailBot servo library\<close>

text \<open>
  A shallow embedding of \<^verbatim>\<open>SB_Servo.cpp\<close> and the declarations of \<^verbatim>\<open>SB_Servo.hpp\<close>.

  Conventions of the model.
  \<^item> A C++ \<^verbatim>\<open>int\<close> has 32 bits in two's complement (the Teensy boards) and is held in an
    \<^typ>\<open>int\<close>. The arithmetic of the constructor, the two products \<^verbatim>\<open>4 * minimumUS\<close> and
    \<^verbatim>\<open>4 * maximumUS\<close> and the increment \<^verbatim>\<open>servoCount++\<close>, wraps around into that range, as
    the compiled code does (the C++ standard leaves signed overflow undefined). The
    differences \<^verbatim>\<open>maxUS - minUS\<close> and \<^verbatim>\<open>us - minUS\<close> inside the two conversions and the sum
    \<^verbatim>\<open>channelNum + 1\<close> in \<^verbatim>\<open>setMultipleTargets\<close> are not wrapped: they leave the range only
    for pulse values \<open>2 ^ 31\<close> or more apart and for the largest channel number an
    \<^verbatim>\<open>int\<close> can hold, and those executions are outside the model.
  \<^item> A C++ \<^verbatim>\<open>float\<close> is a \<^typ>\<open>real\<close>: arithmetic is exact, there is no rounding, and
    there are no infinities or NaN. Where the source divides by a float that is zero, the
    C++ value is not finite; the model gives \<^term>\<open>None\<close> there instead of HOL's \<open>x / 0 = 0\<close>.
  \<^item> The conversion of a float to an \<^verbatim>\<open>int\<close> truncates towards zero; a float beyond the
    range of \<^verbatim>\<open>int\<close> is outside the model.
  \<^item> \<^verbatim>\<open>size_t\<close> is unsigned with 32 bits (the Teensy boards), subtraction wraps around;
    \<^verbatim>\<open>uint16_t\<close> keeps a value modulo \<open>2 ^ 16\<close>.
  \<^item> The header defines \<^verbatim>\<open>DEBUG\<close>, so \<^verbatim>\<open>printDebug\<close> prints; the serial monitor is a
    list of lines, each the number of the servo and the message.
  \<^item> The Maestro controller is the list of the calls it received, together with the
    positions it reports.
\<close>

subsection \<open>Constants of the header\<close>

definition US_ERROR_BIT :: int where "US_ERROR_BIT = 1"
definition RANGE_ERROR_BIT :: int where "RANGE_ERROR_BIT = 2"
definition ANGLE_ERROR_BIT :: int where "ANGLE_ERROR_BIT = 4"
definition CHANNEL_ERROR_BIT :: int where "CHANNEL_ERROR_BIT = 8"
definition ROTATE_TO_UNDER_ERROR_BIT :: int where "ROTATE_TO_UNDER_ERROR_BIT = 16"
definition ROTATE_TO_OVER_ERROR_BIT :: int where "ROTATE_TO_OVER_ERROR_BIT = 32"

definition DEFAULT_MIN_US :: int where "DEFAULT_MIN_US = 500"
definition DEFAULT_MAX_US :: int where "DEFAULT_MAX_US = 2500"
definition DEFAULT_MIN_ANGLE :: int where "DEFAULT_MIN_ANGLE = 0"
definition DEFAULT_MAX_ANGLE :: int where "DEFAULT_MAX_ANGLE = 180"

definition NUM_MAESTRO_CHANNELS :: nat where "NUM_MAESTRO_CHANNELS = 8"

subsection \<open>The data model\<close>

record SB_Servo =
  errorCode :: int
  minUS :: int
  maxUS :: int
  minDegreeRange :: real
  maxDegreeRange :: real
  minAngle :: real
  maxAngle :: real
  channelNum :: int
  servoNumber :: int

text \<open>
  The calls of the Maestro driver that the class makes. The target of \<^verbatim>\<open>setTarget\<close> is
  \<^term>\<open>None\<close> when the source passes an \<^verbatim>\<open>int\<close> converted from a float that is not finite.
  \<^verbatim>\<open>setMultiTarget\<close> receives the address of the array \<^verbatim>\<open>targets\<close>; the call records the
  whole array, where \<^term>\<open>None\<close> is an entry that was never written (or written from a
  float that is not finite).
\<close>

datatype maestro_call =
    SetTarget int "int option"
  | GetPosition int
  | SetMultiTarget int int "int option list"

text \<open>
  What is shared by all servos: the static \<^verbatim>\<open>maestro\<close> (the calls it received and the
  position it reports for a channel), the static \<^verbatim>\<open>servoCount\<close>, and the serial monitor.
\<close>

record world =
  calls :: "maestro_call list"
  position :: "int \<Rightarrow> int"
  servoCount :: int
  serial :: "(int \<times> string) list"

definition printDebug :: "SB_Servo \<Rightarrow> world \<Rightarrow> string \<Rightarrow> world" where
  "printDebug s w printMe = w\<lparr>serial := serial w @ [(servoNumber s, printMe)]\<rparr>"

subsection \<open>Conversions\<close>

definition float_to_int :: "real \<Rightarrow> int" where
  "float_to_int x = (if 0 \<le> x then \<lfloor>x\<rfloor> else \<lceil>x\<rceil>)"

definition degToUS :: "SB_Servo \<Rightarrow> real \<Rightarrow> int option" where
  "degToUS s degree =
     (if maxDegreeRange s = 0 then None
      else Some (float_to_int
        ((real_of_int (maxUS s - minUS s) / maxDegreeRange s) * degree + real_of_int (minUS s))))"

definition usToDegrees :: "SB_Servo \<Rightarrow> int \<Rightarrow> real option" where
  "usToDegrees s us =
     (if real_of_int (maxUS s) - real_of_int (minUS s) = 0 then None
      else Some
        ((maxDegreeRange s / (real_of_int (maxUS s) - real_of_int (minUS s)))
           * real_of_int (us - minUS s) + minDegreeRange s))"

subsection \<open>The checks of the constructor\<close>

definition set_error :: "SB_Servo \<Rightarrow> int \<Rightarrow> SB_Servo" where
  "set_error s b = s\<lparr>errorCode := errorCode s OR b\<rparr>"

definition checkMinUS :: "SB_Servo \<times> world \<Rightarrow> SB_Servo \<times> world" where
  "checkMinUS = (\<lambda>(s, w).
     if minUS s < 0 \<or> minUS s > maxUS s
     then (set_error s US_ERROR_BIT, printDebug s w ''checkMinUS() error'')
     else (s, w))"

definition checkMaxUS :: "SB_Servo \<times> world \<Rightarrow> SB_Servo \<times> world" where
  "checkMaxUS = (\<lambda>(s, w).
     if maxUS s < 0 \<or> maxUS s \<le> minUS s
     then (set_error s US_ERROR_BIT, printDebug s w ''checkMaxMS() error'')
     else (s, w))"

definition checkMinDegreeRange :: "SB_Servo \<times> world \<Rightarrow> SB_Servo \<times> world" where
  "checkMinDegreeRange = (\<lambda>(s, w).
     if minDegreeRange s < 0 \<or> minDegreeRange s > maxDegreeRange s
     then (set_error s RANGE_ERROR_BIT, printDebug s w ''checkMinDegreeRange() error'')
     else (s, w))"

definition checkMaxDegreeRange :: "SB_Servo \<times> world \<Rightarrow> SB_Servo \<times> world" where
  "checkMaxDegreeRange = (\<lambda>(s, w).
     if maxDegreeRange s > 360 \<or> maxDegreeRange s < minDegreeRange s
     then (set_error s RANGE_ERROR_BIT, printDebug s w ''checkMaxDegreeRange() error'')
     else (s, w))"

definition checkMinAngle :: "SB_Servo \<times> world \<Rightarrow> SB_Servo \<times> world" where
  "checkMinAngle = (\<lambda>(s, w).
     if minAngle s < 0 \<or> minAngle s > maxAngle s \<or> minAngle s < minDegreeRange s
     then (set_error s ANGLE_ERROR_BIT, printDebug s w ''checkMinAngle() error'')
     else (s, w))"

definition checkMaxAngle :: "SB_Servo \<times> world \<Rightarrow> SB_Servo \<times> world" where
  "checkMaxAngle = (\<lambda>(s, w).
     if maxAngle s < 0 \<or> maxAngle s < minAngle s \<or> maxAngle s > maxDegreeRange s
     then (set_error s ANGLE_ERROR_BIT, printDebug s w ''checkMaxAngle() error'')
     else (s, w))"

definition checkChannel :: "SB_Servo \<times> world \<Rightarrow> SB_Servo \<times> world" where
  "checkChannel = (\<lambda>(s, w).
     if channelNum s < 0 \<or> channelNum s \<ge> int NUM_MAESTRO_CHANNELS
     then (set_error s CHANNEL_ERROR_BIT, printDebug s w ''checkChannel() error'')
     else (s, w))"

subsection \<open>The constructors\<close>

text \<open>A value stored in a 32-bit \<^verbatim>\<open>int\<close>: two's complement wrap-around.\<close>

definition int32 :: "int \<Rightarrow> int" where
  "int32 x = (x + 2 ^ 31) mod 2 ^ 32 - 2 ^ 31"

text \<open>
  The constructor with seven arguments: the member initialisers in the order of the
  declarations (\<^verbatim>\<open>errorCode = 0\<close> is the default of the header), then the seven checks.
  The products are computed in \<^verbatim>\<open>int\<close> and wrap around before the checks see them.
\<close>

definition SB_Servo_7 ::
  "int \<Rightarrow> int \<Rightarrow> real \<Rightarrow> real \<Rightarrow> real \<Rightarrow> real \<Rightarrow> int \<Rightarrow> world \<Rightarrow> SB_Servo \<times> world" where
  "SB_Servo_7 minimumUS maximumUS minimumRange maximumRange minimumAngle maximumAngle channel w =
     (let s = \<lparr>errorCode = 0,
               minUS = int32 (4 * minimumUS),
               maxUS = int32 (4 * maximumUS),
               minDegreeRange = minimumRange,
               maxDegreeRange = maximumRange,
               minAngle = minimumAngle,
               maxAngle = maximumAngle,
               channelNum = channel,
               servoNumber = servoCount w\<rparr>;
          w' = w\<lparr>servoCount := int32 (servoCount w + 1)\<rparr>
      in checkChannel (checkMaxAngle (checkMinAngle (checkMaxDegreeRange
           (checkMinDegreeRange (checkMaxUS (checkMinUS (s, w'))))))))"

text \<open>\<^verbatim>\<open>SB_Servo::SB_Servo(int minUS, int maxUS, int channel)\<close> of the source file.\<close>

definition SB_Servo_3 :: "int \<Rightarrow> int \<Rightarrow> int \<Rightarrow> world \<Rightarrow> SB_Servo \<times> world" where
  "SB_Servo_3 minUS' maxUS' channel w =
     SB_Servo_7 minUS' maxUS'
       (real_of_int DEFAULT_MIN_ANGLE) (real_of_int DEFAULT_MAX_ANGLE)
       (real_of_int DEFAULT_MIN_ANGLE) (real_of_int DEFAULT_MAX_ANGLE) channel w"

text \<open>\<^verbatim>\<open>SB_Servo::SB_Servo(int channel)\<close>.\<close>

definition SB_Servo_1 :: "int \<Rightarrow> world \<Rightarrow> SB_Servo \<times> world" where
  "SB_Servo_1 channel w = SB_Servo_3 DEFAULT_MIN_US DEFAULT_MAX_US channel w"

subsection \<open>Motion of one servo\<close>

text \<open>
  \<^verbatim>\<open>getCurrentDegrees\<close> reads the mask, it does not run \<^verbatim>\<open>checkChannel\<close>. The result is
  \<^term>\<open>None\<close> when \<^verbatim>\<open>usToDegrees\<close> divides by zero.
\<close>

definition getCurrentDegrees :: "SB_Servo \<Rightarrow> world \<Rightarrow> real option \<times> world" where
  "getCurrentDegrees s w =
     (if errorCode s AND CHANNEL_ERROR_BIT \<noteq> 0
      then (Some (- 1), printDebug s w ''Bad channel num, aborting getCurrentDegrees()'')
      else (let currentUS = position w (channelNum s);
                w' = w\<lparr>calls := calls w @ [GetPosition (channelNum s)]\<rparr>
            in (usToDegrees s currentUS, w')))"

definition rotateToDegrees :: "SB_Servo \<Rightarrow> world \<Rightarrow> real \<Rightarrow> SB_Servo \<times> world" where
  "rotateToDegrees s w degree =
     (let (degree', s1, w1) =
            (if degree > maxAngle s
             then (maxAngle s, set_error s ROTATE_TO_OVER_ERROR_BIT,
                   printDebug s w ''Requested RotateTo() angle exceeds rating warning'')
             else if degree < minAngle s
             then (minAngle s, set_error s ROTATE_TO_UNDER_ERROR_BIT,
                   printDebug s w ''Requested RotateTo() angle under rating warning'')
             else (degree, s, w));
          usToWrite = degToUS s1 degree';
          (s2, w2) = checkChannel (s1, w1)
      in if errorCode s2 AND CHANNEL_ERROR_BIT \<noteq> 0
         then (s2, printDebug s2 w2 ''Bad channel num, aborting rotateTo()'')
         else (s2, w2\<lparr>calls := calls w2 @ [SetTarget (channelNum s2) usToWrite]\<rparr>))"

text \<open>
  \<^verbatim>\<open>rotateBy\<close>: the member \<^verbatim>\<open>currentDeg\<close> that the source assigns is not declared in the
  header; it is read once, on the next line, so it is a local value here. When the
  position read is not finite its conversion to \<^verbatim>\<open>int\<close> is undefined and the result is
  \<^term>\<open>None\<close>.
\<close>

definition rotateBy :: "SB_Servo \<Rightarrow> world \<Rightarrow> real \<Rightarrow> (SB_Servo \<times> world) option" where
  "rotateBy s w degreesBy =
     (case getCurrentDegrees s w of
        (None, w1) \<Rightarrow> None
      | (Some cur, w1) \<Rightarrow>
          (let currentDeg = float_to_int (cur + 0.5);
               desiredAngle = real_of_int currentDeg + degreesBy
           in Some (rotateToDegrees s w1 desiredAngle)))"

definition getErrorCode :: "SB_Servo \<Rightarrow> int" where
  "getErrorCode s = errorCode s"

definition clearErrorCode :: "SB_Servo \<Rightarrow> SB_Servo" where
  "clearErrorCode s = s\<lparr>errorCode := 0\<rparr>"

text \<open>A world before any servo exists: no call yet, every channel reports position 0.\<close>

definition world0 :: world where
  "world0 = \<lparr>calls = [], position = (\<lambda>_. 0), servoCount = 0, serial = []\<rparr>"

subsection \<open>Several servos at once\<close>

text \<open>
  Indexing a \<^verbatim>\<open>std::vector\<close> or an array out of range is undefined; \<^term>\<open>None\<close> says so,
  and it ends the call.
\<close>

definition index :: "'a list \<Rightarrow> nat \<Rightarrow> 'a option" where
  "index xs i = (if i < length xs then Some (xs ! i) else None)"

text \<open>\<^verbatim>\<open>servos.size() - 1\<close> on \<^verbatim>\<open>size_t\<close>: for the empty vector it wraps to \<open>2 ^ 32 - 1\<close>.\<close>

definition size_minus_1 :: "nat \<Rightarrow> nat" where
  "size_minus_1 n = (n + 2 ^ 32 - 1) mod 2 ^ 32"

definition to_uint16 :: "int \<Rightarrow> int" where
  "to_uint16 v = v mod 2 ^ 16"

text \<open>The first loop, from \<^verbatim>\<open>i\<close> on: it compares neighbours and prints, nothing else.\<close>

function continuity_loop :: "SB_Servo list \<Rightarrow> nat \<Rightarrow> world \<Rightarrow> nat \<Rightarrow> world option" where
  "continuity_loop servos bound w i =
     (if i < bound
      then (case index servos i of
              None \<Rightarrow> None
            | Some a \<Rightarrow>
               (case index servos (i + 1) of
                  None \<Rightarrow> None
                | Some b \<Rightarrow>
                    continuity_loop servos bound
                      (if channelNum a + 1 \<noteq> channelNum b
                       then printDebug a w ''Continuity is wrong in setMultipleTargets!!!''
                       else w)
                      (i + 1)))
      else Some w)"
  by pat_completeness auto
termination
  by (relation "measure (\<lambda>(servos, bound, w, i). bound - i)") auto

text \<open>The second loop, from \<^verbatim>\<open>i\<close> on: it fills the array \<^verbatim>\<open>targets\<close>.\<close>

function targets_loop ::
  "SB_Servo list \<Rightarrow> real list \<Rightarrow> int option list \<Rightarrow> nat \<Rightarrow> int option list option" where
  "targets_loop servos degrees targets i =
     (if i < length degrees
      then (case index servos i of
              None \<Rightarrow> None
            | Some sv \<Rightarrow>
               (case index degrees i of
                  None \<Rightarrow> None
                | Some d \<Rightarrow>
                    if i < length targets
                    then targets_loop servos degrees
                           (targets[i := map_option to_uint16 (degToUS sv d)]) (i + 1)
                    else None))
      else Some targets)"
  by pat_completeness auto
termination
  by (relation "measure (\<lambda>(servos, degrees, targets, i). length degrees - i)") auto

definition setMultipleTargets :: "SB_Servo list \<Rightarrow> real list \<Rightarrow> world \<Rightarrow> world option" where
  "setMultipleTargets servos degrees w =
     (case continuity_loop servos (size_minus_1 (length servos)) w 0 of
        None \<Rightarrow> None
      | Some w1 \<Rightarrow>
         (case targets_loop servos degrees (replicate NUM_MAESTRO_CHANNELS None) 0 of
            None \<Rightarrow> None
          | Some targets \<Rightarrow>
             (let numberOfServosToMove = int (length servos) in
              case index servos 0 of
                None \<Rightarrow> None
              | Some first \<Rightarrow>
                  Some (w1\<lparr>calls := calls w1 @
                    [SetMultiTarget numberOfServosToMove (channelNum first) targets]\<rparr>))))"

subsection \<open>Auxiliary notions for the statements\<close>

text \<open>
  The lines that the first loop of \<^verbatim>\<open>setMultipleTargets\<close> prints for the indices from
  \<open>i\<close> up to \<open>bound\<close>: one line for every unit whose successor is not on the next channel.
\<close>

definition continuity_lines :: "SB_Servo list \<Rightarrow> nat \<Rightarrow> nat \<Rightarrow> (int \<times> string) list" where
  "continuity_lines servos i bound =
     map (\<lambda>j. (servoNumber (servos ! j), ''Continuity is wrong in setMultipleTargets!!!''))
       (filter (\<lambda>j. channelNum (servos ! j) + 1 \<noteq> channelNum (servos ! (j + 1))) [i..<bound])"


subsection \<open>Concrete units\<close>


text \<open>Nine units with default calibration, and nine angles.\<close>

definition nine_servos :: "SB_Servo list" where
  "nine_servos = map (\<lambda>ch. fst (SB_Servo_1 ch world0)) [2, 4, 5, 2, 4, 5, 2, 4, 5]"

definition nine_degrees :: "real list" where
  "nine_degrees = [0, 90, 180, 0, 90, 180, 0, 90, 180]"

text \<open>
  A unit on channel 9, which the Maestro does not have; the controller reports the
  position 6000 on every channel.
\<close>

definition bad_channel_unit :: "SB_Servo \<times> world" where
  "bad_channel_unit = SB_Servo_1 9 (world0\<lparr>position := (\<lambda>_. 6000)\<rparr>)"

text \<open>
  A unit whose rated range starts at 16 degrees: pulses 0 to 256 (stored 0 to 1024),
  range 16 to 128, safe window 16 to 128, channel 0. Every check passes. All the numbers
  are powers of two or small multiples, so float arithmetic on them is exact.
\<close>

definition offset_unit :: SB_Servo where
  "offset_unit = fst (SB_Servo_7 0 256 16 128 16 128 0 world0)"

text \<open>A unit whose safe window is inverted: \<^verbatim>\<open>minAngle\<close> 64 and \<^verbatim>\<open>maxAngle\<close> 32.\<close>

definition inverted_unit :: SB_Servo where
  "inverted_unit = fst (SB_Servo_7 0 256 0 128 64 32 0 world0)"

text \<open>The default unit on channel 0.\<close>

definition default_unit :: SB_Servo where
  "default_unit = fst (SB_Servo_1 0 world0)"

section \<open>Facts about the model\<close>

lemmas error_bits =
  US_ERROR_BIT_def RANGE_ERROR_BIT_def ANGLE_ERROR_BIT_def CHANNEL_ERROR_BIT_def
  ROTATE_TO_UNDER_ERROR_BIT_def ROTATE_TO_OVER_ERROR_BIT_def

lemmas defaults =
  DEFAULT_MIN_US_def DEFAULT_MAX_US_def DEFAULT_MIN_ANGLE_def DEFAULT_MAX_ANGLE_def

lemmas checks = checkMinUS_def checkMaxUS_def checkMinDegreeRange_def checkMaxDegreeRange_def
  checkMinAngle_def checkMaxAngle_def checkChannel_def

lemma int32_small [simp]: "- (2 ^ 31) \<le> x \<Longrightarrow> x < 2 ^ 31 \<Longrightarrow> int32 x = x"
  by (simp add: int32_def)

lemma or_and_self: "(x OR b) AND b = (b::int)"
  by (rule bit_eqI) (auto simp: bit_and_iff bit_or_iff)

lemma set_error_fields [simp]:
  "minUS (set_error s b) = minUS s"
  "maxUS (set_error s b) = maxUS s"
  "minDegreeRange (set_error s b) = minDegreeRange s"
  "maxDegreeRange (set_error s b) = maxDegreeRange s"
  "minAngle (set_error s b) = minAngle s"
  "maxAngle (set_error s b) = maxAngle s"
  "channelNum (set_error s b) = channelNum s"
  "servoNumber (set_error s b) = servoNumber s"
  "errorCode (set_error s b) = errorCode s OR b"
  by (simp_all add: set_error_def)

lemma printDebug_fields [simp]:
  "calls (printDebug s w m) = calls w"
  "position (printDebug s w m) = position w"
  "servoCount (printDebug s w m) = servoCount w"
  "serial (printDebug s w m) = serial w @ [(servoNumber s, m)]"
  by (simp_all add: printDebug_def)

lemma checkChannel_pair:
  "checkChannel (s, w) =
     (if channelNum s < 0 \<or> channelNum s \<ge> int NUM_MAESTRO_CHANNELS
      then (set_error s CHANNEL_ERROR_BIT, printDebug s w ''checkChannel() error'')
      else (s, w))"
  by (simp add: checkChannel_def)

lemma fst_checks:
  "fst (checkMinUS p) = set_error (fst p)
     (if minUS (fst p) < 0 \<or> minUS (fst p) > maxUS (fst p) then US_ERROR_BIT else 0)"
  "fst (checkMaxUS p) = set_error (fst p)
     (if maxUS (fst p) < 0 \<or> maxUS (fst p) \<le> minUS (fst p) then US_ERROR_BIT else 0)"
  "fst (checkMinDegreeRange p) = set_error (fst p)
     (if minDegreeRange (fst p) < 0 \<or> minDegreeRange (fst p) > maxDegreeRange (fst p)
      then RANGE_ERROR_BIT else 0)"
  "fst (checkMaxDegreeRange p) = set_error (fst p)
     (if maxDegreeRange (fst p) > 360 \<or> maxDegreeRange (fst p) < minDegreeRange (fst p)
      then RANGE_ERROR_BIT else 0)"
  "fst (checkMinAngle p) = set_error (fst p)
     (if minAngle (fst p) < 0 \<or> minAngle (fst p) > maxAngle (fst p)
         \<or> minAngle (fst p) < minDegreeRange (fst p)
      then ANGLE_ERROR_BIT else 0)"
  "fst (checkMaxAngle p) = set_error (fst p)
     (if maxAngle (fst p) < 0 \<or> maxAngle (fst p) < minAngle (fst p)
         \<or> maxAngle (fst p) > maxDegreeRange (fst p)
      then ANGLE_ERROR_BIT else 0)"
  "fst (checkChannel p) = set_error (fst p)
     (if channelNum (fst p) < 0 \<or> channelNum (fst p) \<ge> int NUM_MAESTRO_CHANNELS
      then CHANNEL_ERROR_BIT else 0)"
  by (cases p, simp add: checks set_error_def)+

lemma calls_checks:
  "calls (snd (checkMinUS p)) = calls (snd p)"
  "calls (snd (checkMaxUS p)) = calls (snd p)"
  "calls (snd (checkMinDegreeRange p)) = calls (snd p)"
  "calls (snd (checkMaxDegreeRange p)) = calls (snd p)"
  "calls (snd (checkMinAngle p)) = calls (snd p)"
  "calls (snd (checkMaxAngle p)) = calls (snd p)"
  "calls (snd (checkChannel p)) = calls (snd p)"
  by (cases p, simp add: checks)+

lemma fst_SB_Servo_7:
  "fst (SB_Servo_7 a b c d e f ch w) =
     fst (checkChannel (checkMaxAngle (checkMinAngle (checkMaxDegreeRange
       (checkMinDegreeRange (checkMaxUS (checkMinUS
         (\<lparr>errorCode = 0, minUS = int32 (4 * a), maxUS = int32 (4 * b),
           minDegreeRange = c, maxDegreeRange = d, minAngle = e, maxAngle = f,
           channelNum = ch, servoNumber = servoCount w\<rparr>,
          w\<lparr>servoCount := int32 (servoCount w + 1)\<rparr>))))))))"
  by (simp add: SB_Servo_7_def)

lemma calls_SB_Servo_7: "calls (snd (SB_Servo_7 a b c d e f ch w)) = calls w"
  by (simp add: SB_Servo_7_def calls_checks)

lemma errorCode_SB_Servo_7:
  "errorCode (fst (SB_Servo_7 a b c d e f ch w)) =
     (if int32 (4 * a) < 0 \<or> int32 (4 * a) > int32 (4 * b) then US_ERROR_BIT else 0)
     OR (if int32 (4 * b) < 0 \<or> int32 (4 * b) \<le> int32 (4 * a) then US_ERROR_BIT else 0)
     OR (if c < 0 \<or> c > d then RANGE_ERROR_BIT else 0)
     OR (if d > 360 \<or> d < c then RANGE_ERROR_BIT else 0)
     OR (if e < 0 \<or> e > f \<or> e < c then ANGLE_ERROR_BIT else 0)
     OR (if f < 0 \<or> f < e \<or> f > d then ANGLE_ERROR_BIT else 0)
     OR (if ch < 0 \<or> ch \<ge> int NUM_MAESTRO_CHANNELS then CHANNEL_ERROR_BIT else 0)"
  unfolding fst_SB_Servo_7 fst_checks set_error_fields fst_conv
  by (simp add: or.assoc)

lemma calibration_SB_Servo_7:
  "minUS (fst (SB_Servo_7 a b c d e f ch w)) = int32 (4 * a)"
  "maxUS (fst (SB_Servo_7 a b c d e f ch w)) = int32 (4 * b)"
  "minDegreeRange (fst (SB_Servo_7 a b c d e f ch w)) = c"
  "maxDegreeRange (fst (SB_Servo_7 a b c d e f ch w)) = d"
  "minAngle (fst (SB_Servo_7 a b c d e f ch w)) = e"
  "maxAngle (fst (SB_Servo_7 a b c d e f ch w)) = f"
  "channelNum (fst (SB_Servo_7 a b c d e f ch w)) = ch"
  "servoNumber (fst (SB_Servo_7 a b c d e f ch w)) = servoCount w"
  unfolding fst_SB_Servo_7 fst_checks set_error_fields fst_conv
  by simp_all

lemma and_channel_bit:
  "(x OR ROTATE_TO_OVER_ERROR_BIT) AND CHANNEL_ERROR_BIT = x AND CHANNEL_ERROR_BIT"
  "(x OR ROTATE_TO_UNDER_ERROR_BIT) AND CHANNEL_ERROR_BIT = x AND CHANNEL_ERROR_BIT"
  by (simp_all add: error_bits bit.conj_disj_distrib2)

lemma and_channel_bit_self:
  "(x OR CHANNEL_ERROR_BIT) AND CHANNEL_ERROR_BIT = CHANNEL_ERROR_BIT"
  "CHANNEL_ERROR_BIT \<noteq> 0"
  by (simp_all add: or_and_self) (simp add: CHANNEL_ERROR_BIT_def)

lemma degToUS_set_error: "degToUS (set_error s b) d = degToUS s d"
  by (simp add: degToUS_def)

lemma rotateToDegrees_unfold:
  "rotateToDegrees s w degree =
     (let b = (if degree > maxAngle s then ROTATE_TO_OVER_ERROR_BIT
               else if degree < minAngle s then ROTATE_TO_UNDER_ERROR_BIT else 0);
          degree' = (if degree > maxAngle s then maxAngle s
                     else if degree < minAngle s then minAngle s else degree);
          w1 = (if degree > maxAngle s
                then printDebug s w ''Requested RotateTo() angle exceeds rating warning''
                else if degree < minAngle s
                then printDebug s w ''Requested RotateTo() angle under rating warning''
                else w);
          bad = (channelNum s < 0 \<or> channelNum s \<ge> int NUM_MAESTRO_CHANNELS);
          s2 = set_error (set_error s b) (if bad then CHANNEL_ERROR_BIT else 0);
          w2 = (if bad then printDebug s w1 ''checkChannel() error'' else w1)
      in if errorCode s2 AND CHANNEL_ERROR_BIT \<noteq> 0
         then (s2, printDebug s2 w2 ''Bad channel num, aborting rotateTo()'')
         else (s2, w2\<lparr>calls := calls w2 @ [SetTarget (channelNum s) (degToUS s degree')]\<rparr>))"
  by (simp add: rotateToDegrees_def checkChannel_pair Let_def degToUS_set_error)


lemma fst_if_same: "fst (if c then (a, x) else (a, y)) = a"
  by simp

lemma fst_rotateToDegrees:
  "fst (rotateToDegrees s w degree) =
     set_error (set_error s
       (if degree > maxAngle s then ROTATE_TO_OVER_ERROR_BIT
        else if degree < minAngle s then ROTATE_TO_UNDER_ERROR_BIT else 0))
       (if channelNum s < 0 \<or> channelNum s \<ge> int NUM_MAESTRO_CHANNELS
        then CHANNEL_ERROR_BIT else 0)"
  by (simp only: rotateToDegrees_unfold Let_def fst_if_same)

lemma calls_rotateToDegrees:
  "calls (snd (rotateToDegrees s w degree)) =
     (if channelNum s < 0 \<or> channelNum s \<ge> int NUM_MAESTRO_CHANNELS
         \<or> errorCode s AND CHANNEL_ERROR_BIT \<noteq> 0
      then calls w
      else calls w @ [SetTarget (channelNum s)
             (degToUS s (if degree > maxAngle s then maxAngle s
                         else if degree < minAngle s then minAngle s else degree))])"
  by (simp add: rotateToDegrees_unfold Let_def and_channel_bit and_channel_bit_self)

declare continuity_loop.simps [simp del]
declare targets_loop.simps [simp del]

lemma size_minus_1_zero: "size_minus_1 0 = 4294967295"
  by (simp add: size_minus_1_def)

lemma size_minus_1_less: "0 < n \<Longrightarrow> size_minus_1 n < n"
proof -
  assume "0 < n"
  then have "n + 2 ^ 32 - 1 = (n - 1) + 1 * 2 ^ 32" by simp
  then have "size_minus_1 n = (n - 1) mod 2 ^ 32"
    unfolding size_minus_1_def by (metis mod_mult_self1)
  also have "\<dots> \<le> n - 1" by (rule mod_less_eq_dividend)
  finally show ?thesis using \<open>0 < n\<close> by simp
qed


lemma continuity_loop_Some:
  "bound < length servos \<Longrightarrow>
   continuity_loop servos bound w i =
     Some (w\<lparr>serial := serial w @ continuity_lines servos i bound\<rparr>)"
proof (induction servos bound w i rule: continuity_loop.induct)
  case (1 servos bound w i)
  show ?case
  proof (cases "i < bound")
    case False
    then show ?thesis
      by (simp add: continuity_loop.simps [of servos bound w i] continuity_lines_def)
  next
    case True
    with "1.prems" have a: "index servos i = Some (servos ! i)"
      and b: "index servos (i + 1) = Some (servos ! (i + 1))"
      by (simp_all add: index_def)
    have upt: "[i..<bound] = i # [i + 1..<bound]"
      using True by (simp add: upt_conv_Cons)
    let ?w' = "if channelNum (servos ! i) + 1 \<noteq> channelNum (servos ! (i + 1))
       then printDebug (servos ! i) w ''Continuity is wrong in setMultipleTargets!!!'' else w"
    have step: "continuity_loop servos bound w i = continuity_loop servos bound ?w' (i + 1)"
      by (subst continuity_loop.simps) (simp only: True if_True a b option.case)
    have "continuity_loop servos bound ?w' (i + 1) =
        Some (?w'\<lparr>serial := serial ?w' @ continuity_lines servos (i + 1) bound\<rparr>)"
      using "1.IH" [OF True a b "1.prems"] .
    also have "\<dots> = Some (w\<lparr>serial := serial w @ continuity_lines servos i bound\<rparr>)"
      by (simp add: continuity_lines_def upt printDebug_def)
    finally show ?thesis using step by simp
  qed
qed

lemma continuity_loop_empty: "0 < bound \<Longrightarrow> continuity_loop [] bound w 0 = None"
  by (simp add: continuity_loop.simps [of "[]" bound w 0] index_def)

lemma targets_loop_None_iff:
  "(targets_loop servos degrees targets i = None) =
     (i < length degrees \<and> (length servos < length degrees \<or> length targets < length degrees))"
proof (induction servos degrees targets i rule: targets_loop.induct)
  case (1 servos degrees targets i)
  show ?case
  proof (cases "i < length degrees")
    case False
    then show ?thesis by (simp add: targets_loop.simps [of servos degrees targets i])
  next
    case True
    note less = this
    show ?thesis
    proof (cases "i < length servos \<and> i < length targets")
      case False
      then show ?thesis using less
        by (auto simp add: targets_loop.simps [of servos degrees targets i] index_def)
    next
      case True
      then have a: "index servos i = Some (servos ! i)"
        and b: "index degrees i = Some (degrees ! i)" and c: "i < length targets"
        using less by (simp_all add: index_def)
      let ?v = "map_option to_uint16 (degToUS (servos ! i) (degrees ! i))"
      have step: "targets_loop servos degrees targets i =
          targets_loop servos degrees (targets[i := ?v]) (i + 1)"
        by (subst targets_loop.simps) (simp only: less if_True a b c option.case)
      show ?thesis
        using "1.IH" [OF less a b c] True less unfolding step by auto
    qed
  qed
qed


lemma setMultipleTargets_None_iff:
  "(setMultipleTargets servos degrees w = None) =
     (\<not> (1 \<le> length servos \<and> length degrees \<le> length servos
          \<and> length degrees \<le> NUM_MAESTRO_CHANNELS))"
proof (cases "servos = []")
  case True
  then show ?thesis
    by (simp add: setMultipleTargets_def continuity_loop_empty size_minus_1_zero)
next
  case False
  then have "size_minus_1 (length servos) < length servos"
    by (simp add: size_minus_1_less)
  then have cl: "continuity_loop servos (size_minus_1 (length servos)) w 0 =
      Some (w\<lparr>serial := serial w @ continuity_lines servos 0 (size_minus_1 (length servos))\<rparr>)"
    by (rule continuity_loop_Some)
  have ix: "index servos 0 = Some (servos ! 0)"
    using False by (simp add: index_def)
  have ne: "1 \<le> length servos"
    using False by (cases servos) simp_all
  show ?thesis
    using ne targets_loop_None_iff [of servos degrees "replicate NUM_MAESTRO_CHANNELS None" 0]
    by (cases "targets_loop servos degrees (replicate NUM_MAESTRO_CHANNELS None) 0")
       (auto simp add: setMultipleTargets_def cl ix Let_def)
qed


lemma or_or_and: "((x OR b) OR c) AND b = (b::int)"
  by (rule bit_eqI) (auto simp: bit_and_iff bit_or_iff)

lemma bit_or_left: "bit (x::int) n \<Longrightarrow> bit (x OR b) n"
  by (simp add: bit_or_iff)

lemma getCurrentDegrees_None_iff:
  "(fst (getCurrentDegrees s w) = None) =
     (errorCode s AND CHANNEL_ERROR_BIT = 0 \<and> maxUS s = minUS s)"
  by (simp add: getCurrentDegrees_def usToDegrees_def Let_def)

lemma rotateBy_None_iff:
  "(rotateBy s w degreesBy = None) =
     (errorCode s AND CHANNEL_ERROR_BIT = 0 \<and> maxUS s = minUS s)"
  using getCurrentDegrees_None_iff [of s w]
  by (cases "getCurrentDegrees s w") (auto simp add: rotateBy_def Let_def split: option.splits)

lemma rotateBy_Some:
  "rotateBy s w degreesBy = Some (s', w') \<Longrightarrow>
     \<exists>w1 angle. rotateToDegrees s w1 angle = (s', w')"
  by (cases "getCurrentDegrees s w")
     (auto simp add: rotateBy_def Let_def split: option.splits intro: exI)

lemma world_checks:
  "servoCount (snd (checkMinUS p)) = servoCount (snd p)"
  "servoCount (snd (checkMaxUS p)) = servoCount (snd p)"
  "servoCount (snd (checkMinDegreeRange p)) = servoCount (snd p)"
  "servoCount (snd (checkMaxDegreeRange p)) = servoCount (snd p)"
  "servoCount (snd (checkMinAngle p)) = servoCount (snd p)"
  "servoCount (snd (checkMaxAngle p)) = servoCount (snd p)"
  "servoCount (snd (checkChannel p)) = servoCount (snd p)"
  "position (snd (checkMinUS p)) = position (snd p)"
  "position (snd (checkMaxUS p)) = position (snd p)"
  "position (snd (checkMinDegreeRange p)) = position (snd p)"
  "position (snd (checkMaxDegreeRange p)) = position (snd p)"
  "position (snd (checkMinAngle p)) = position (snd p)"
  "position (snd (checkMaxAngle p)) = position (snd p)"
  "position (snd (checkChannel p)) = position (snd p)"
  by (cases p, simp add: checks)+

lemma world_SB_Servo_7:
  "servoCount (snd (SB_Servo_7 a b c d e f ch w)) = int32 (servoCount w + 1)"
  "position (snd (SB_Servo_7 a b c d e f ch w)) = position w"
  by (simp_all add: SB_Servo_7_def world_checks)



section \<open>The claims\<close>

subsection \<open>C1: the two conversions composed\<close>

text \<open>
  What the composition does on a calibration with positive pulse bounds in the right
  order and a positive rated range, in exact arithmetic: the pulse is cut to a whole
  number, and \<^verbatim>\<open>usToDegrees\<close> adds \<^verbatim>\<open>minDegreeRange\<close>, which \<^verbatim>\<open>degToUS\<close> never
  subtracted. So the angle read back is the angle sent plus \<^verbatim>\<open>minDegreeRange\<close>, less at
  most one pulse step.
\<close>

lemma round_trip_general:
  assumes "minUS s < maxUS s" "0 < maxDegreeRange s" "0 \<le> minUS s" "0 \<le> a"
  shows "\<exists>p r. degToUS s a = Some p \<and> usToDegrees s p = Some r
     \<and> r \<le> a + minDegreeRange s
     \<and> a + minDegreeRange s - maxDegreeRange s / real_of_int (maxUS s - minUS s) < r"
proof -
  define D where "D = real_of_int (maxUS s - minUS s)"
  define R where "R = maxDegreeRange s"
  define x where "x = (D / R) * a + real_of_int (minUS s)"
  define p where "p = \<lfloor>x\<rfloor>"
  have D: "0 < D" using assms(1) by (simp add: D_def)
  have R: "0 < R" using assms(2) by (simp add: R_def)
  have x0: "0 \<le> x" using D R assms(3,4) by (simp add: x_def)
  have dp: "degToUS s a = Some p"
    using R x0 by (simp add: degToUS_def float_to_int_def p_def x_def D_def R_def)
  have up: "usToDegrees s p = Some ((R / D) * (real_of_int p - real_of_int (minUS s)) + minDegreeRange s)"
    using D by (simp add: usToDegrees_def D_def R_def)
  have le: "real_of_int p \<le> x" by (simp add: p_def)
  have gt: "x - 1 < real_of_int p" by (simp add: p_def)
  have eq: "(R / D) * (x - real_of_int (minUS s)) = a"
    using D R by (simp add: x_def)
  have RD: "0 < R / D" using D R by simp
  have "(R / D) * (real_of_int p - real_of_int (minUS s)) \<le> (R / D) * (x - real_of_int (minUS s))"
    using le RD by (intro mult_left_mono) simp_all
  then have 1: "(R / D) * (real_of_int p - real_of_int (minUS s)) \<le> a" using eq by simp
  have "(R / D) * (x - 1 - real_of_int (minUS s)) < (R / D) * (real_of_int p - real_of_int (minUS s))"
    using gt RD by (intro mult_strict_left_mono) simp_all
  moreover have "(R / D) * (x - 1 - real_of_int (minUS s)) = a - R / D"
    using eq by (simp add: algebra_simps)
  ultimately have 2: "a - R / D < (R / D) * (real_of_int p - real_of_int (minUS s))" by simp
  show ?thesis
    using dp up 1 2 by (simp add: D_def R_def)
qed

text \<open>
  Claim C1 says that \<^verbatim>\<open>usToDegrees\<close> after \<^verbatim>\<open>degToUS\<close> returns the angle it was given,
  up to rounding, on every calibration with \<^verbatim>\<open>minUS < maxUS\<close> and \<^verbatim>\<open>maxDegreeRange > 0\<close>
  and every angle of the safe window. On the unit whose rated range starts at 16 degrees
  every check passes, 64 degrees is inside the window, and 64 degrees becomes the pulse
  512, which reads back as 80 degrees: 16 degrees off, the value of \<^verbatim>\<open>minDegreeRange\<close>.
\<close>

theorem round_trip_offset:
  "errorCode offset_unit = 0
   \<and> minUS offset_unit < maxUS offset_unit \<and> 0 < maxDegreeRange offset_unit
   \<and> minAngle offset_unit \<le> 64 \<and> 64 \<le> maxAngle offset_unit
   \<and> degToUS offset_unit 64 = Some 512
   \<and> usToDegrees offset_unit 512 = Some 80"
  by (simp add: offset_unit_def calibration_SB_Servo_7 errorCode_SB_Servo_7 degToUS_def
      usToDegrees_def float_to_int_def NUM_MAESTRO_CHANNELS_def)

subsection \<open>C2: clamping in \<^verbatim>\<open>rotateToDegrees\<close>\<close>

text \<open>
  Claim C2, for the units whose safe window is not inverted (\<^verbatim>\<open>minAngle \<le> maxAngle\<close>):
  an angle above \<^verbatim>\<open>maxAngle\<close> makes the same calls to the Maestro as \<^verbatim>\<open>maxAngle\<close> itself
  and sets the rotate-over bit; an angle below \<^verbatim>\<open>minAngle\<close> makes the same calls as
  \<^verbatim>\<open>minAngle\<close> and sets the rotate-under bit. When the channel is good and its bit is
  clear, that is exactly one \<^verbatim>\<open>setTarget\<close> with the pulse of the bound.
\<close>

theorem rotateToDegrees_clamps:
  assumes "minAngle s \<le> maxAngle s"
  shows "(degree > maxAngle s \<longrightarrow>
            calls (snd (rotateToDegrees s w degree)) = calls (snd (rotateToDegrees s w (maxAngle s)))
          \<and> errorCode (fst (rotateToDegrees s w degree)) AND ROTATE_TO_OVER_ERROR_BIT
               = ROTATE_TO_OVER_ERROR_BIT
          \<and> (0 \<le> channelNum s \<and> channelNum s < int NUM_MAESTRO_CHANNELS
               \<and> errorCode s AND CHANNEL_ERROR_BIT = 0 \<longrightarrow>
               calls (snd (rotateToDegrees s w degree))
                 = calls w @ [SetTarget (channelNum s) (degToUS s (maxAngle s))]))
       \<and> (degree < minAngle s \<longrightarrow>
            calls (snd (rotateToDegrees s w degree)) = calls (snd (rotateToDegrees s w (minAngle s)))
          \<and> errorCode (fst (rotateToDegrees s w degree)) AND ROTATE_TO_UNDER_ERROR_BIT
               = ROTATE_TO_UNDER_ERROR_BIT
          \<and> (0 \<le> channelNum s \<and> channelNum s < int NUM_MAESTRO_CHANNELS
               \<and> errorCode s AND CHANNEL_ERROR_BIT = 0 \<longrightarrow>
               calls (snd (rotateToDegrees s w degree))
                 = calls w @ [SetTarget (channelNum s) (degToUS s (minAngle s))]))"
  using assms
  by (auto simp add: calls_rotateToDegrees fst_rotateToDegrees or_and_self or_or_and)

text \<open>
  The default unit on channel 0 (window 0 to 180): 200 degrees is sent as the pulse of
  180 degrees, and 5 degrees below zero as the pulse of 0 degrees.
\<close>

theorem rotateToDegrees_clamps_witness:
  "minAngle default_unit \<le> maxAngle default_unit
   \<and> 200 > maxAngle default_unit \<and> - 5 < minAngle default_unit
   \<and> calls (snd (rotateToDegrees default_unit world0 200)) = [SetTarget 0 (Some 10000)]
   \<and> calls (snd (rotateToDegrees default_unit world0 (- 5))) = [SetTarget 0 (Some 2000)]
   \<and> errorCode (fst (rotateToDegrees default_unit world0 200)) = ROTATE_TO_OVER_ERROR_BIT
   \<and> errorCode (fst (rotateToDegrees default_unit world0 (- 5))) = ROTATE_TO_UNDER_ERROR_BIT"
  using rotateToDegrees_clamps [of default_unit 200 world0]
    rotateToDegrees_clamps [of default_unit "- 5" world0]
  by (simp add: default_unit_def SB_Servo_1_def SB_Servo_3_def defaults
      calibration_SB_Servo_7 errorCode_SB_Servo_7 fst_rotateToDegrees calls_rotateToDegrees
      NUM_MAESTRO_CHANNELS_def degToUS_def float_to_int_def world0_def error_bits)

text \<open>
  Claim C2 as it is written speaks of every unit. The constructor also completes for an
  inverted window (it sets the angle bit), and there the claim fails: with \<^verbatim>\<open>minAngle\<close>
  64 and \<^verbatim>\<open>maxAngle\<close> 32, the angle 48 is above \<^verbatim>\<open>maxAngle\<close> and is sent as the pulse of
  32 degrees, 256, while \<^verbatim>\<open>rotateToDegrees(32)\<close> itself is below \<^verbatim>\<open>minAngle\<close> and is sent
  as the pulse of 64 degrees, 512. The same angle 48 is also below \<^verbatim>\<open>minAngle\<close>, and
  the rotate-under bit stays clear.
\<close>

theorem inverted_window_counterexample:
  "maxAngle inverted_unit = 32 \<and> minAngle inverted_unit = 64 \<and> (48::real) > 32
   \<and> calls (snd (rotateToDegrees inverted_unit world0 48)) = [SetTarget 0 (Some 256)]
   \<and> calls (snd (rotateToDegrees inverted_unit world0 32)) = [SetTarget 0 (Some 512)]
   \<and> errorCode (fst (rotateToDegrees inverted_unit world0 48)) AND ROTATE_TO_UNDER_ERROR_BIT = 0"
  by (simp add: inverted_unit_def calibration_SB_Servo_7 errorCode_SB_Servo_7
      calls_rotateToDegrees fst_rotateToDegrees degToUS_def
      float_to_int_def NUM_MAESTRO_CHANNELS_def error_bits world0_def)

subsection \<open>C3: the constructor with three arguments\<close>

text \<open>
  Claim C3 says that the constructor with three arguments takes a channel and a pair of
  angles, and delegates with the default pulse range and with the window and the rated
  range both equal to the pair. The source passes its first two arguments on as the
  pulse bounds and takes the default angles 0 and 180 for the range and for the window:
  built from 10, 170 and channel 3, the unit has the pulse bounds 40 and 680 and the
  angles 0 and 180, and differs from the unit that the claim describes.
\<close>

theorem three_argument_constructor_takes_pulses:
  "SB_Servo_3 a b ch w = SB_Servo_7 a b 0 180 0 180 ch w
   \<and> minUS (fst (SB_Servo_3 10 170 3 world0)) = 40
   \<and> maxUS (fst (SB_Servo_3 10 170 3 world0)) = 680
   \<and> minDegreeRange (fst (SB_Servo_3 10 170 3 world0)) = 0
   \<and> maxDegreeRange (fst (SB_Servo_3 10 170 3 world0)) = 180
   \<and> minAngle (fst (SB_Servo_3 10 170 3 world0)) = 0
   \<and> maxAngle (fst (SB_Servo_3 10 170 3 world0)) = 180
   \<and> channelNum (fst (SB_Servo_3 10 170 3 world0)) = 3
   \<and> fst (SB_Servo_3 10 170 3 world0)
        \<noteq> fst (SB_Servo_7 DEFAULT_MIN_US DEFAULT_MAX_US 10 170 10 170 3 world0)"
proof -
  have "minUS (fst (SB_Servo_3 10 170 3 world0))
      \<noteq> minUS (fst (SB_Servo_7 DEFAULT_MIN_US DEFAULT_MAX_US 10 170 10 170 3 world0))"
    by (simp add: SB_Servo_3_def calibration_SB_Servo_7 defaults)
  then have "fst (SB_Servo_3 10 170 3 world0)
        \<noteq> fst (SB_Servo_7 DEFAULT_MIN_US DEFAULT_MAX_US 10 170 10 170 3 world0)"
    by metis
  then show ?thesis
    by (simp add: SB_Servo_3_def calibration_SB_Servo_7 defaults)
qed

subsection \<open>C4: pulse bounds out of order\<close>

text \<open>
  Claim C4, for the arguments whose products \<^verbatim>\<open>4 * minimumUS\<close> and \<^verbatim>\<open>4 * maximumUS\<close> fit
  the 32-bit \<^verbatim>\<open>int\<close>: when the minimum pulse is not below the maximum pulse and the range,
  the window and the channel are valid, the constructor with seven arguments returns a
  unit (the model is a total function, there is no failure to return) whose error mask
  is exactly the pulse-width bit.
\<close>

theorem pulse_error_only:
  assumes "maximumUS \<le> minimumUS"
    and "- (2 ^ 31) \<le> 4 * minimumUS" "4 * minimumUS < 2 ^ 31"
    and "- (2 ^ 31) \<le> 4 * maximumUS" "4 * maximumUS < 2 ^ 31"
    and "0 \<le> minimumRange" "minimumRange \<le> maximumRange" "maximumRange \<le> 360"
    and "minimumRange \<le> minimumAngle" "minimumAngle \<le> maximumAngle"
    and "maximumAngle \<le> maximumRange"
    and "0 \<le> channel" "channel < int NUM_MAESTRO_CHANNELS"
  shows "\<exists>s w'. SB_Servo_7 minimumUS maximumUS minimumRange maximumRange
            minimumAngle maximumAngle channel w = (s, w')
          \<and> errorCode s = US_ERROR_BIT"
proof -
  have lo: "int32 (4 * minimumUS) = 4 * minimumUS"
    using assms(2,3) by (rule int32_small)
  have hi: "int32 (4 * maximumUS) = 4 * maximumUS"
    using assms(4,5) by (rule int32_small)
  have "errorCode (fst (SB_Servo_7 minimumUS maximumUS minimumRange maximumRange
            minimumAngle maximumAngle channel w)) = US_ERROR_BIT"
    using assms(1) assms(6-13) by (simp add: errorCode_SB_Servo_7 lo hi US_ERROR_BIT_def)
  then show ?thesis
    by (metis prod.collapse)
qed

text \<open>Pulse bounds 2500 and 500, in the wrong order, with the default angles on channel 0.\<close>

theorem pulse_error_only_witness:
  "(500::int) \<le> 2500 \<and> (4 * 2500 :: int) < 2 ^ 31 \<and> - (2 ^ 31) \<le> (4 * 500 :: int) \<and>
   (\<exists>s w'. SB_Servo_7 2500 500 0 180 0 180 0 world0 = (s, w') \<and> errorCode s = US_ERROR_BIT)"
  using pulse_error_only [where minimumUS = 2500 and maximumUS = 500 and minimumRange = 0
      and maximumRange = 180 and minimumAngle = 0 and maximumAngle = 180 and channel = 0
      and w = world0]
  by (simp add: NUM_MAESTRO_CHANNELS_def)

text \<open>
  Claim C4 as it is written speaks of every argument tuple. The checks run on the stored
  products, not on the arguments. The minimum pulse \<open>2 ^ 30\<close> and the maximum pulse 1 are
  in the wrong order, and both are values of a 32-bit \<^verbatim>\<open>int\<close>; the product
  \<^verbatim>\<open>4 * minimumUS\<close> is \<open>2 ^ 32\<close> and wraps around to 0, so the unit stores the bounds 0 and
  4, no check fires, and the mask is 0.
\<close>

theorem pulse_overflow_counterexample:
  "(1::int) \<le> 1073741824 \<and> (1073741824::int) < 2 ^ 31
   \<and> minUS (fst (SB_Servo_7 1073741824 1 0 180 0 180 0 world0)) = 0
   \<and> maxUS (fst (SB_Servo_7 1073741824 1 0 180 0 180 0 world0)) = 4
   \<and> errorCode (fst (SB_Servo_7 1073741824 1 0 180 0 180 0 world0)) = 0
   \<and> errorCode (fst (SB_Servo_7 1073741824 1 0 180 0 180 0 world0)) \<noteq> US_ERROR_BIT"
  by (simp add: calibration_SB_Servo_7 errorCode_SB_Servo_7 int32_def
      NUM_MAESTRO_CHANNELS_def US_ERROR_BIT_def)

subsection \<open>C5: \<^verbatim>\<open>rotateToDegrees\<close> on a channel that does not exist\<close>

text \<open>
  Claim C5: on a unit whose channel is below 0 or not below the number of channels,
  \<^verbatim>\<open>rotateToDegrees\<close> returns (the model is total) having made no call to the Maestro,
  and the channel bit is set in the mask afterwards, whatever the mask was before.
\<close>

theorem invalid_channel_rotate:
  assumes "channelNum s < 0 \<or> int NUM_MAESTRO_CHANNELS \<le> channelNum s"
  shows "\<exists>s' w'. rotateToDegrees s w degree = (s', w')
         \<and> calls w' = calls w
         \<and> errorCode s' AND CHANNEL_ERROR_BIT = CHANNEL_ERROR_BIT"
proof -
  have "calls (snd (rotateToDegrees s w degree)) = calls w \<and>
         errorCode (fst (rotateToDegrees s w degree)) AND CHANNEL_ERROR_BIT = CHANNEL_ERROR_BIT"
    using assms
    by (auto simp add: calls_rotateToDegrees fst_rotateToDegrees and_channel_bit_self)
  then show ?thesis
    by (metis prod.collapse)
qed

text \<open>The unit on channel 9, after its mask was cleared: the bit comes back, no call is made.\<close>

theorem invalid_channel_rotate_witness:
  "int NUM_MAESTRO_CHANNELS \<le> channelNum (clearErrorCode (fst (SB_Servo_1 9 world0)))
   \<and> errorCode (clearErrorCode (fst (SB_Servo_1 9 world0))) = 0
   \<and> (\<exists>s' w'. rotateToDegrees (clearErrorCode (fst (SB_Servo_1 9 world0))) world0 90 = (s', w')
         \<and> calls w' = []
         \<and> errorCode s' AND CHANNEL_ERROR_BIT = CHANNEL_ERROR_BIT)"
  using invalid_channel_rotate [of "clearErrorCode (fst (SB_Servo_1 9 world0))" world0 90]
  by (simp add: clearErrorCode_def SB_Servo_1_def SB_Servo_3_def calibration_SB_Servo_7
      NUM_MAESTRO_CHANNELS_def world0_def)

subsection \<open>C6: \<^verbatim>\<open>getCurrentDegrees\<close> on a channel that does not exist\<close>

text \<open>
  \<^verbatim>\<open>getCurrentDegrees\<close> answers \<open>-1\<close> without a call to the Maestro whenever the channel
  bit is set in the mask.
\<close>

lemma getCurrentDegrees_bit_set:
  "errorCode s AND CHANNEL_ERROR_BIT \<noteq> 0 \<Longrightarrow>
     fst (getCurrentDegrees s w) = Some (- 1) \<and> calls (snd (getCurrentDegrees s w)) = calls w"
  by (simp add: getCurrentDegrees_def)

text \<open>
  Claim C6 says that \<^verbatim>\<open>getCurrentDegrees\<close> returns \<open>-1\<close> and makes no \<^verbatim>\<open>getPosition\<close> call
  in every state of a unit whose channel is invalid. The function reads the channel bit
  of the mask and, unlike \<^verbatim>\<open>rotateToDegrees\<close>, does not run \<^verbatim>\<open>checkChannel\<close> again. The
  unit built on channel 9 has the bit set and answers \<open>-1\<close> with no call; after
  \<^verbatim>\<open>clearErrorCode\<close> the channel is still 9, and the same unit asks the Maestro for the
  position of channel 9 and returns 90 degrees for the reported pulse 6000.
\<close>

theorem getCurrentDegrees_after_clear:
  "channelNum (fst bad_channel_unit) = 9
   \<and> \<not> (0 \<le> channelNum (fst bad_channel_unit)
         \<and> channelNum (fst bad_channel_unit) < int NUM_MAESTRO_CHANNELS)
   \<and> errorCode (fst bad_channel_unit) = CHANNEL_ERROR_BIT
   \<and> fst (getCurrentDegrees (fst bad_channel_unit) (snd bad_channel_unit)) = Some (- 1)
   \<and> calls (snd (getCurrentDegrees (fst bad_channel_unit) (snd bad_channel_unit))) = []
   \<and> channelNum (clearErrorCode (fst bad_channel_unit)) = 9
   \<and> fst (getCurrentDegrees (clearErrorCode (fst bad_channel_unit)) (snd bad_channel_unit))
        = Some 90
   \<and> calls (snd (getCurrentDegrees (clearErrorCode (fst bad_channel_unit))
                     (snd bad_channel_unit))) = [GetPosition 9]"
  by (simp add: bad_channel_unit_def SB_Servo_1_def SB_Servo_3_def defaults
      calibration_SB_Servo_7 errorCode_SB_Servo_7 world_SB_Servo_7 calls_SB_Servo_7
      getCurrentDegrees_def usToDegrees_def clearErrorCode_def
      NUM_MAESTRO_CHANNELS_def CHANNEL_ERROR_BIT_def Let_def world0_def)

subsection \<open>C7: a batch on channels that are not contiguous\<close>




subsection \<open>C8: the midpoint scenario\<close>

text \<open>
  Claim C8: the unit built from the pulses 500 and 2500, range 0 to 180, window 0 to 180
  and channel 0 stores the pulse bounds 2000 and 10000, its mask is 0, and
  \<^verbatim>\<open>rotateToDegrees(90)\<close> adds exactly one call to those of the Maestro,
  \<^verbatim>\<open>setTarget(0, 6000)\<close>, where 6000 is the midpoint of the stored bounds.
\<close>

theorem scenario_midpoint:
  "minUS (fst (SB_Servo_7 500 2500 0 180 0 180 0 w)) = 2000 \<and>
   maxUS (fst (SB_Servo_7 500 2500 0 180 0 180 0 w)) = 10000 \<and>
   errorCode (fst (SB_Servo_7 500 2500 0 180 0 180 0 w)) = 0 \<and>
   calls (snd (rotateToDegrees (fst (SB_Servo_7 500 2500 0 180 0 180 0 w))
                 (snd (SB_Servo_7 500 2500 0 180 0 180 0 w)) 90))
     = calls w @ [SetTarget 0 (Some 6000)] \<and>
   (minUS (fst (SB_Servo_7 500 2500 0 180 0 180 0 w))
      + maxUS (fst (SB_Servo_7 500 2500 0 180 0 180 0 w))) div 2 = 6000"
  by (simp add: calibration_SB_Servo_7 errorCode_SB_Servo_7 calls_rotateToDegrees
      calls_SB_Servo_7 NUM_MAESTRO_CHANNELS_def degToUS_def float_to_int_def)

subsection \<open>C9: the mask only accumulates\<close>

text \<open>
  Claim C9: a bit \<open>n\<close> that is set in the mask stays set through each of the seven checks
  of the constructor, through \<^verbatim>\<open>rotateToDegrees\<close> and through \<^verbatim>\<open>rotateBy\<close>.
  \<^verbatim>\<open>getCurrentDegrees\<close> and \<^verbatim>\<open>getErrorCode\<close> write no member: in the model they return no
  unit at all, and \<^verbatim>\<open>getErrorCode\<close> returns the mask as it is. \<^verbatim>\<open>clearErrorCode\<close> sets the
  mask to 0, so \<^verbatim>\<open>getErrorCode\<close> right after it returns 0.

  \<^verbatim>\<open>rotateBy\<close> has a result in the model except when the channel bit is clear and the two
  pulse bounds are equal: there the position read divides by zero, and the C++ value is
  not a finite float.
\<close>

theorem error_mask_accumulates:
  "(bit (errorCode s) n \<longrightarrow>
       bit (errorCode (fst (checkMinUS (s, w)))) n
     \<and> bit (errorCode (fst (checkMaxUS (s, w)))) n
     \<and> bit (errorCode (fst (checkMinDegreeRange (s, w)))) n
     \<and> bit (errorCode (fst (checkMaxDegreeRange (s, w)))) n
     \<and> bit (errorCode (fst (checkMinAngle (s, w)))) n
     \<and> bit (errorCode (fst (checkMaxAngle (s, w)))) n
     \<and> bit (errorCode (fst (checkChannel (s, w)))) n
     \<and> bit (errorCode (fst (rotateToDegrees s w degree))) n
     \<and> (\<forall>s' w'. rotateBy s w degreesBy = Some (s', w') \<longrightarrow> bit (errorCode s') n))
   \<and> (rotateBy s w degreesBy = None) =
         (errorCode s AND CHANNEL_ERROR_BIT = 0 \<and> maxUS s = minUS s)
   \<and> getErrorCode s = errorCode s
   \<and> errorCode (clearErrorCode s) = 0
   \<and> getErrorCode (clearErrorCode s) = 0"
proof -
  have rb: "bit (errorCode s') n"
    if "bit (errorCode s) n" "rotateBy s w degreesBy = Some (s', w')" for s' w'
  proof -
    from rotateBy_Some [OF that(2)] obtain w1 angle
      where "rotateToDegrees s w1 angle = (s', w')" by blast
    then have "s' = fst (rotateToDegrees s w1 angle)" by (metis fst_conv)
    then show ?thesis using that(1) by (simp add: fst_rotateToDegrees bit_or_left)
  qed
  show ?thesis
    using rb
    by (simp add: fst_checks fst_rotateToDegrees bit_or_left rotateBy_None_iff
        getErrorCode_def clearErrorCode_def)
qed

text \<open>
  The unit on channel 9 has the channel bit (bit 3) set. It is still set after a rotation
  to 200 degrees, which adds the rotate-over bit, and after \<^verbatim>\<open>rotateBy\<close>.
\<close>

theorem error_mask_accumulates_witness:
  "bit (errorCode (fst bad_channel_unit)) 3
   \<and> bit (errorCode (fst (rotateToDegrees (fst bad_channel_unit) (snd bad_channel_unit) 200))) 3
   \<and> errorCode (fst (rotateToDegrees (fst bad_channel_unit) (snd bad_channel_unit) 200))
        = CHANNEL_ERROR_BIT OR ROTATE_TO_OVER_ERROR_BIT
   \<and> (\<exists>s' w'. rotateBy (fst bad_channel_unit) (snd bad_channel_unit) 10 = Some (s', w')
         \<and> bit (errorCode s') 3)"
proof -
  have e8: "errorCode (fst bad_channel_unit) = 8"
    by (simp add: bad_channel_unit_def SB_Servo_1_def SB_Servo_3_def defaults
        errorCode_SB_Servo_7 NUM_MAESTRO_CHANNELS_def CHANNEL_ERROR_BIT_def)
  have b: "bit (errorCode (fst bad_channel_unit)) 3"
    unfolding e8 by (simp add: bit_iff_odd)
  have d: "rotateBy (fst bad_channel_unit) (snd bad_channel_unit) 10 \<noteq> None"
    by (simp add: rotateBy_None_iff e8 CHANNEL_ERROR_BIT_def)
  have c: "channelNum (fst bad_channel_unit) = 9" "maxAngle (fst bad_channel_unit) = 180"
    by (simp_all add: bad_channel_unit_def SB_Servo_1_def SB_Servo_3_def defaults
        calibration_SB_Servo_7)
  have e: "errorCode (fst (rotateToDegrees (fst bad_channel_unit) (snd bad_channel_unit) 200))
        = CHANNEL_ERROR_BIT OR ROTATE_TO_OVER_ERROR_BIT"
    by (simp add: fst_rotateToDegrees e8 c NUM_MAESTRO_CHANNELS_def error_bits)
  from d obtain s' w'
    where r: "rotateBy (fst bad_channel_unit) (snd bad_channel_unit) 10 = Some (s', w')"
    by (cases "rotateBy (fst bad_channel_unit) (snd bad_channel_unit) 10") auto
  have "bit (errorCode (fst (rotateToDegrees (fst bad_channel_unit)
          (snd bad_channel_unit) 200))) 3 \<and> bit (errorCode s') 3"
    using b r
      error_mask_accumulates [where s = "fst bad_channel_unit" and n = 3
        and w = "snd bad_channel_unit" and degree = 200 and degreesBy = 10]
    by blast
  then show ?thesis
    using b e r by blast
qed

subsection \<open>C10: the index accesses of \<^verbatim>\<open>setMultipleTargets\<close>\<close>

text \<open>
  Claim C10: \<^verbatim>\<open>setMultipleTargets\<close> returns a result, that is every access
  \<^verbatim>\<open>servos[i]\<close>, \<^verbatim>\<open>degrees[i]\<close> and \<^verbatim>\<open>targets[i]\<close> that it makes is in range, exactly when
  there is at least one servo, there are no more angles than servos, and no more angles
  than the eight entries of \<^verbatim>\<open>targets\<close>. For the empty vector the bound
  \<^verbatim>\<open>servos.size() - 1\<close> of the first loop wraps around to \<open>2 ^ 32 - 1\<close>, the loop runs and
  reads \<^verbatim>\<open>servos[0]\<close>, which does not exist. With more than eight angles the second loop
  fails.
\<close>

theorem setMultipleTargets_in_bounds:
  "(setMultipleTargets servos degrees w \<noteq> None) =
     (1 \<le> length servos \<and> length degrees \<le> length servos
        \<and> length degrees \<le> NUM_MAESTRO_CHANNELS)
   \<and> size_minus_1 0 = 2 ^ 32 - 1
   \<and> index ([] :: SB_Servo list) 0 = None
   \<and> continuity_loop [] (size_minus_1 0) w 0 = None
   \<and> (NUM_MAESTRO_CHANNELS < length degrees \<longrightarrow>
        targets_loop servos degrees (replicate NUM_MAESTRO_CHANNELS None) 0 = None)"
  by (auto simp add: setMultipleTargets_None_iff size_minus_1_zero continuity_loop_empty
      targets_loop_None_iff index_def)

text \<open>Nine units and nine angles: more angles than entries of \<^verbatim>\<open>targets\<close>.\<close>

theorem setMultipleTargets_in_bounds_witness:
  "setMultipleTargets nine_servos nine_degrees world0 = None \<and>
   NUM_MAESTRO_CHANNELS < length nine_degrees \<and>
   targets_loop nine_servos nine_degrees (replicate NUM_MAESTRO_CHANNELS None) 0 = None"
  using setMultipleTargets_in_bounds [of nine_servos nine_degrees world0]
  by (simp add: nine_servos_def nine_degrees_def NUM_MAESTRO_CHANNELS_def)

end
